theory Spec2Isabelle
  imports Complex_Main
begin

section \<open>Documents of the store\<close>

text \<open>
  The validation engine (\<^verbatim>\<open>src/server/validation_engine.py\<close>) works on two MongoDB
  collections, \<^verbatim>\<open>users\<close> and \<^verbatim>\<open>projects\<close>; the modules (assignments) of a project
  are embedded in the project document as an array. A document is a Python dict; a key
  that is absent, or whose value is null, reads as \<^verbatim>\<open>None\<close> through \<^verbatim>\<open>dict.get\<close>, so
  such a field is an \<open>option\<close> here. Only for the date fields does the code tell
  a null value from an absent key; there \<open>None\<close> is the absent key and null is a value.
  The \<^verbatim>\<open>_id\<close> of a module, read with a default, is absent or an identifier.
\<close>

text \<open>
  An identifier is a BSON ObjectId or a plain string. \<^verbatim>\<open>str()\<close> maps both to their
  text, which is what the matcher compares; a store query compares the values themselves.
\<close>

datatype idval = ObjectId string | IdStr string

fun py_str_id :: "idval \<Rightarrow> string" where
  "py_str_id (ObjectId h) = h"
| "py_str_id (IdStr s) = s"

text \<open>\<^verbatim>\<open>str(d.get(k))\<close> of an identifier field: \<^verbatim>\<open>str(None)\<close> is \<^verbatim>\<open>'None'\<close>.\<close>

fun py_str_id_opt :: "idval option \<Rightarrow> string" where
  "py_str_id_opt None = ''None''"
| "py_str_id_opt (Some i) = py_str_id i"

text \<open>
  The value of a date field: null, a datetime (microseconds since the epoch; the driver
  returns naive datetimes) or a string.
\<close>

datatype dval = DNull | DDatetime int | DStr string

text \<open>
  A validation rule is a dict; \<open>githubRepo\<close> is the one key the engine reads,
  \<open>other_keys\<close> names whatever else the dict holds.
\<close>

record vrule =
  githubRepo :: "string option"
  other_keys :: "string list"

record module =
  m_oid :: "idval option"
  m_id :: "string option"
  title :: "string option"
  description :: "string option"
  assignedToUserId :: "idval option"
  status :: "string option"
  validationRule :: "vrule option"
  dueDate :: "dval option"
  createdAt :: "dval option"
  completedAt :: "dval option"

text \<open>An element of a modules array: a module document or null.\<close>

datatype melem = Null | Doc module

text \<open>
  The \<^verbatim>\<open>modules\<close> field of a project: absent, an embedded document with numeric keys
  (what a positional update creates when the field is missing), or an array.
\<close>

datatype modules_field = Absent | Embedded "(nat \<times> module) list" | Arr "melem list"

record project =
  p_id :: idval
  p_name :: "string option"
  teamId :: "idval option"
  modules :: modules_field

record user =
  u_id :: idval
  u_name :: "string option"
  username :: "string option"
  role :: "string option"
  githubUsername :: "string option"

record store =
  users :: "user list"
  projects :: "project list"

section \<open>The world outside the source\<close>

text \<open>Exceptions that the modelled code can raise.\<close>

datatype error = StoreError | WriteError | AttributeError | KeyError | IndexError
  | TypeError | ValueError

text \<open>The call sites of the store, each of which may raise a driver error.\<close>

datatype store_op = FindUser | FindProjects | UpdateOne | FindUpdated | FindFresh | Aggregate

text \<open>The places where \<^verbatim>\<open>datetime.utcnow()\<close> is read.\<close>

datatype clock_site = AtUpdate | AtEstimate | AtResult

text \<open>A Python datetime: naive, or aware of its offset (the instant in microseconds).\<close>

datatype pydt = Naive int | Aware int

text \<open>
  What the code takes from outside: which store calls fail, the clock, and the library
  functions \<^verbatim>\<open>datetime.fromisoformat\<close> (\<open>None\<close> is its ValueError) and
  \<^verbatim>\<open>round(x, 1)\<close> on floats.
\<close>

record env =
  fails :: "store_op \<Rightarrow> bool"
  utcnow :: "clock_site \<Rightarrow> int"
  fromisoformat :: "string \<Rightarrow> pydt option"
  round1 :: "rat \<Rightarrow> rat"

section \<open>Strings\<close>

text \<open>\<^verbatim>\<open>str.lower()\<close> on the ASCII range, where repository names live.\<close>

definition char_lower :: "char \<Rightarrow> char" where
  "char_lower c =
     (let n = (of_char c :: nat) in if 65 \<le> n \<and> n \<le> 90 then char_of (n + 32) else c)"

definition lower :: "string \<Rightarrow> string" where
  "lower s = map char_lower s"

text \<open>Truthiness of \<^verbatim>\<open>d.get(k)\<close> for a string field: absent, null and \<^verbatim>\<open>''\<close> are falsy.\<close>

fun str_truthy :: "string option \<Rightarrow> bool" where
  "str_truthy None = False"
| "str_truthy (Some s) = (s \<noteq> [])"

section \<open>The matcher\<close>

text \<open>\<^verbatim>\<open>get_user_by_github_username\<close>: \<^verbatim>\<open>find_one\<close> returns the first matching document.\<close>

definition get_user_by_github_username :: "env \<Rightarrow> user list \<Rightarrow> string \<Rightarrow> error + user option" where
  "get_user_by_github_username e us github_username =
     (if fails e FindUser then Inl StoreError
      else Inr (find (\<lambda>u. githubUsername u = Some github_username) us))"

text \<open>
  The body of the inner loop of \<^verbatim>\<open>find_module_in_projects\<close> for one module document:
  \<open>None\<close> when the loop goes on, otherwise which of the two \<^verbatim>\<open>return project, idx\<close>
  statements is reached.
\<close>

datatype match_kind = RuleMatch | Fallback

text \<open>Truthiness of the rule dict: it is falsy when it has no key.\<close>

definition vrule_truthy :: "vrule \<Rightarrow> bool" where
  "vrule_truthy vr = (githubRepo vr \<noteq> None \<or> other_keys vr \<noteq> [])"

definition check_module :: "idval \<Rightarrow> string \<Rightarrow> string \<Rightarrow> module \<Rightarrow> match_kind option" where
  "check_module user_id repo_name st m =
     (if py_str_id_opt (assignedToUserId m) = py_str_id user_id \<and> status m = Some st then
        (case validationRule m of
           None \<Rightarrow> Some Fallback
         | Some validation_rule \<Rightarrow>
             (case githubRepo validation_rule of
                None \<Rightarrow> Some Fallback
              | Some r \<Rightarrow>
                  if vrule_truthy validation_rule \<and> r \<noteq> [] then
                    (if lower r = lower repo_name then Some RuleMatch else None)
                  else Some Fallback))
      else None)"

text \<open>
  The inner loop over \<^verbatim>\<open>enumerate(project['modules'])\<close>. On a null element
  \<^verbatim>\<open>module.get\<close> raises AttributeError.
\<close>

fun scan_modules ::
  "idval \<Rightarrow> string \<Rightarrow> string \<Rightarrow> project \<Rightarrow> nat \<Rightarrow> melem list \<Rightarrow> error + (project \<times> nat) option" where
  "scan_modules user_id repo_name st p idx [] = Inr None"
| "scan_modules user_id repo_name st p idx (Null # ms) = Inl AttributeError"
| "scan_modules user_id repo_name st p idx (Doc m # ms) =
     (case check_module user_id repo_name st m of
        Some k \<Rightarrow> Inr (Some (p, idx))
      | None \<Rightarrow> scan_modules user_id repo_name st p (Suc idx) ms)"

text \<open>The outer loop; a project whose \<^verbatim>\<open>modules\<close> is not a list is passed over.\<close>

fun scan_projects ::
  "idval \<Rightarrow> string \<Rightarrow> string \<Rightarrow> project list \<Rightarrow> error + (project \<times> nat) option" where
  "scan_projects user_id repo_name st [] = Inr None"
| "scan_projects user_id repo_name st (p # ps) =
     (case modules p of
        Arr ms \<Rightarrow>
          (case scan_modules user_id repo_name st p 0 ms of
             Inr None \<Rightarrow> scan_projects user_id repo_name st ps
           | r \<Rightarrow> r)
      | _ \<Rightarrow> scan_projects user_id repo_name st ps)"

text \<open>\<^verbatim>\<open>find_module_in_projects\<close>; \<open>Inr None\<close> is the pair \<^verbatim>\<open>(None, None)\<close>.\<close>

definition find_module_in_projects ::
  "env \<Rightarrow> project list \<Rightarrow> idval \<Rightarrow> string \<Rightarrow> string \<Rightarrow> error + (project \<times> nat) option" where
  "find_module_in_projects e ps user_id repo_name st =
     (if fails e FindProjects then Inl StoreError
      else scan_projects user_id repo_name st ps)"

text \<open>An array element that the scan passes over: a document on which the loop goes on.\<close>

definition skipped :: "idval \<Rightarrow> string \<Rightarrow> string \<Rightarrow> melem \<Rightarrow> bool" where
  "skipped user_id repo_name st el =
     (case el of Null \<Rightarrow> False | Doc m \<Rightarrow> check_module user_id repo_name st m = None)"

text \<open>A project in which the scan finds nothing.\<close>

definition passed_over :: "idval \<Rightarrow> string \<Rightarrow> string \<Rightarrow> project \<Rightarrow> bool" where
  "passed_over user_id repo_name st p =
     (case modules p of Arr ms \<Rightarrow> list_all (skipped user_id repo_name st) ms | _ \<Rightarrow> True)"

section \<open>The status update\<close>

text \<open>A datetime as the store keeps it: BSON dates have millisecond precision.\<close>

definition bson_datetime :: "int \<Rightarrow> int" where
  "bson_datetime t = (t div 1000) * 1000"

text \<open>\<^verbatim>\<open>find_one({'_id': project_id})\<close>: the first project with that identifier.\<close>

definition find_one :: "project list \<Rightarrow> idval \<Rightarrow> project option" where
  "find_one ps project_id = find (\<lambda>p. p_id p = project_id) ps"

text \<open>
  The two assignments of the \<^verbatim>\<open>$set\<close>: \<^verbatim>\<open>modules.<i>.status\<close> and
  \<^verbatim>\<open>modules.<i>.completedAt\<close>, applied to the document at position \<open>i\<close>.
\<close>

definition set_completed :: "string \<Rightarrow> int \<Rightarrow> module \<Rightarrow> module" where
  "set_completed new_status t m = m\<lparr>status := Some new_status, completedAt := Some (DDatetime t)\<rparr>"

definition empty_module :: module where
  "empty_module = \<lparr>m_oid = None, m_id = None, title = None, description = None,
     assignedToUserId = None, status = None, validationRule = None, dueDate = None,
     createdAt = None, completedAt = None\<rparr>"

fun embedded_set :: "nat \<Rightarrow> (module \<Rightarrow> module) \<Rightarrow> (nat \<times> module) list \<Rightarrow> (nat \<times> module) list" where
  "embedded_set k f [] = [(k, f empty_module)]"
| "embedded_set k f ((k', v) # kvs) =
     (if k' = k then (k', f v) # kvs else (k', v) # embedded_set k f kvs)"

text \<open>
  The \<^verbatim>\<open>$set\<close> on the \<^verbatim>\<open>modules\<close> field, as MongoDB applies a path with a numeric
  component: inside an array it addresses the element (an index past the end pads the
  array with nulls, a null element cannot be descended into and the write is rejected);
  on a missing field or an embedded document it addresses the key.
\<close>

definition apply_set :: "modules_field \<Rightarrow> nat \<Rightarrow> string \<Rightarrow> int \<Rightarrow> error + modules_field" where
  "apply_set mf i new_status t =
     (case mf of
        Absent \<Rightarrow> Inr (Embedded [(i, set_completed new_status t empty_module)])
      | Embedded kvs \<Rightarrow> Inr (Embedded (embedded_set i (set_completed new_status t) kvs))
      | Arr ms \<Rightarrow>
          if i < length ms then
            (case ms ! i of
               Null \<Rightarrow> Inl WriteError
             | Doc m \<Rightarrow> Inr (Arr (ms[i := Doc (set_completed new_status t m)])))
          else Inr (Arr (ms @ replicate (i - length ms) Null
                        @ [Doc (set_completed new_status t empty_module)])))"

text \<open>
  \<^verbatim>\<open>update_one({'_id': project_id}, {'$set': ...})\<close>: the first project with that
  identifier is written; the second component is \<^verbatim>\<open>modified_count\<close>, which is 0 when
  no project matches or when the write leaves the document as it was.
\<close>

fun update_one :: "project list \<Rightarrow> idval \<Rightarrow> nat \<Rightarrow> string \<Rightarrow> int \<Rightarrow> error + (project list \<times> nat)" where
  "update_one [] project_id i new_status t = Inr ([], 0)"
| "update_one (p # ps) project_id i new_status t =
     (if p_id p = project_id then
        (case apply_set (modules p) i new_status t of
           Inl err \<Rightarrow> Inl err
         | Inr mf \<Rightarrow> Inr (p\<lparr>modules := mf\<rparr> # ps, if mf = modules p then 0 else 1))
      else
        (case update_one ps project_id i new_status t of
           Inl err \<Rightarrow> Inl err
         | Inr (ps', n) \<Rightarrow> Inr (p # ps', n)))"

text \<open>
  \<^verbatim>\<open>project['modules'][module_index]\<close> in Python: an array is indexed, a null element
  reads as \<open>None\<close>; an embedded document has string keys, so the integer key is missing.
\<close>

definition modules_index :: "project \<Rightarrow> nat \<Rightarrow> error + module option" where
  "modules_index p i =
     (case modules p of
        Absent \<Rightarrow> Inl KeyError
      | Embedded kvs \<Rightarrow> Inl KeyError
      | Arr ms \<Rightarrow>
          if i < length ms then (case ms ! i of Null \<Rightarrow> Inr None | Doc m \<Rightarrow> Inr (Some m))
          else Inl IndexError)"

text \<open>
  \<^verbatim>\<open>update_module_status\<close>, with the collection passed in and returned. The result is
  the exception raised, \<open>None\<close>, or the module read back.
\<close>

definition update_module_status ::
  "env \<Rightarrow> project list \<Rightarrow> idval \<Rightarrow> nat \<Rightarrow> string \<Rightarrow> (error + module option) \<times> project list" where
  "update_module_status e ps project_id module_index new_status =
     (if fails e UpdateOne then (Inl StoreError, ps)
      else
        (case update_one ps project_id module_index new_status (bson_datetime (utcnow e AtUpdate)) of
           Inl err \<Rightarrow> (Inl err, ps)
         | Inr (ps', modified_count) \<Rightarrow>
             if modified_count > 0 then
               (if fails e FindUpdated then (Inl StoreError, ps')
                else
                  (case find_one ps' project_id of
                     None \<Rightarrow> (Inl TypeError, ps')
                   | Some updated_project \<Rightarrow> (modules_index updated_project module_index, ps')))
             else (Inr None, ps')))"

section \<open>The delay estimator\<close>

record delay_estimate =
  predictedDelay :: int
  delayReason :: string
  confidence :: string
  avgCompletionTime :: "rat option"
  historicalDataPoints :: nat

definition no_due_date_result :: delay_estimate where
  "no_due_date_result = \<lparr>predictedDelay = 0, delayReason = ''No due date set'',
     confidence = ''n/a'', avgCompletionTime = None, historicalDataPoints = 0\<rparr>"

definition calculation_error_result :: delay_estimate where
  "calculation_error_result = \<lparr>predictedDelay = 0, delayReason = ''Calculation error'',
     confidence = ''low'', avgCompletionTime = None, historicalDataPoints = 0\<rparr>"

text \<open>Truthiness of a date value: null and the empty string are falsy.\<close>

fun dval_truthy :: "dval \<Rightarrow> bool" where
  "dval_truthy DNull = False"
| "dval_truthy (DDatetime t) = True"
| "dval_truthy (DStr s) = (s \<noteq> [])"

text \<open>\<^verbatim>\<open>s.replace('Z', '+00:00')\<close>.\<close>

definition replace_Z :: "string \<Rightarrow> string" where
  "replace_Z s = concat (map (\<lambda>c. if c = CHR ''Z'' then ''+00:00'' else [c]) s)"

text \<open>
  \<^verbatim>\<open>due_date if isinstance(due_date, datetime) else
  datetime.fromisoformat(str(due_date).replace('Z', '+00:00'))\<close>
\<close>

definition due_date_obj :: "env \<Rightarrow> dval \<Rightarrow> error + pydt" where
  "due_date_obj e due_date =
     (case due_date of
        DDatetime t \<Rightarrow> Inr (Naive t)
      | DStr s \<Rightarrow> (case fromisoformat e (replace_Z s) of None \<Rightarrow> Inl ValueError | Some dt \<Rightarrow> Inr dt)
      | DNull \<Rightarrow> (case fromisoformat e ''None'' of None \<Rightarrow> Inl ValueError | Some dt \<Rightarrow> Inr dt))"

definition day_us :: int where
  "day_us = 86400000000"

text \<open>
  \<^verbatim>\<open>(a - b).days\<close> for two datetimes: the floor of the difference in days; a naive and
  an aware datetime cannot be subtracted.
\<close>

fun timedelta_days :: "pydt \<Rightarrow> pydt \<Rightarrow> error + int" where
  "timedelta_days (Naive a) (Naive b) = Inr ((a - b) div day_us)"
| "timedelta_days (Aware a) (Aware b) = Inr ((a - b) div day_us)"
| "timedelta_days (Naive a) (Aware b) = Inl TypeError"
| "timedelta_days (Aware a) (Naive b) = Inl TypeError"

text \<open>\<^verbatim>\<open>(completed_at - due_date_obj).days\<close>, where the left operand is a field value.\<close>

fun minus_due_days :: "dval \<Rightarrow> pydt \<Rightarrow> error + int" where
  "minus_due_days (DDatetime c) due = timedelta_days (Naive c) due"
| "minus_due_days DNull due = Inl TypeError"
| "minus_due_days (DStr s) due = Inl TypeError"

text \<open>\<^verbatim>\<open>(completed - created).days\<close> for two field values.\<close>

fun span_days :: "dval \<Rightarrow> dval \<Rightarrow> error + int" where
  "span_days (DDatetime c) (DDatetime cr) = Inr ((c - cr) div day_us)"
| "span_days c cr = Inl TypeError"

text \<open>
  The aggregation pipeline: \<^verbatim>\<open>$unwind\<close> of the modules, \<^verbatim>\<open>$match\<close> on the user, the
  status and the existence of both timestamps (a null value exists), \<^verbatim>\<open>$limit\<close> 20.
\<close>

fun unwind :: "project \<Rightarrow> module list" where
  "unwind p = (case modules p of Arr ms \<Rightarrow> [m. Doc m \<leftarrow> ms] | _ \<Rightarrow> [])"

definition history_match :: "idval \<Rightarrow> module \<Rightarrow> bool" where
  "history_match user_id m =
     (assignedToUserId m = Some user_id \<and> status m = Some ''completed''
      \<and> completedAt m \<noteq> None \<and> createdAt m \<noteq> None)"

definition aggregate_user_modules :: "env \<Rightarrow> idval \<Rightarrow> project list \<Rightarrow> error + module list" where
  "aggregate_user_modules e user_id ps =
     (if fails e Aggregate then Inl StoreError
      else Inr (take 20 (filter (history_match user_id) (concat (map unwind ps)))))"

text \<open>The loop that collects \<^verbatim>\<open>completion_times\<close>.\<close>

fun completion_times :: "module list \<Rightarrow> error + int list" where
  "completion_times [] = Inr []"
| "completion_times (m # ms) =
     (case (createdAt m, completedAt m) of
        (Some created, Some completed) \<Rightarrow>
          if dval_truthy created \<and> dval_truthy completed then
            (case span_days completed created of
               Inl err \<Rightarrow> Inl err
             | Inr delta \<Rightarrow>
                 (case completion_times ms of Inl err \<Rightarrow> Inl err | Inr ts \<Rightarrow> Inr (delta # ts)))
          else completion_times ms
      | _ \<Rightarrow> completion_times ms)"


text \<open>Decimal text of an integer, as an f-string prints it.\<close>

fun str_nat :: "nat \<Rightarrow> string" where
  "str_nat n = (if n < 10 then [char_of (48 + n)] else str_nat (n div 10) @ [char_of (48 + n mod 10)])"

definition py_str_int :: "int \<Rightarrow> string" where
  "py_str_int i = (if i < 0 then CHR ''-'' # str_nat (nat (- i)) else str_nat (nat i))"

definition delay_reason :: "int \<Rightarrow> string" where
  "delay_reason delay_days =
     (if delay_days > 0 then ''Completed '' @ py_str_int delay_days @ '' days late''
      else if delay_days = 0 then ''Completed on time''
      else ''Completed '' @ py_str_int \<bar>delay_days\<bar> @ '' days early'')"

definition confidence_of :: "nat \<Rightarrow> string" where
  "confidence_of n = (if n \<ge> 5 then ''high'' else if n \<ge> 2 then ''medium'' else ''low'')"

definition avg_completion_time :: "int list \<Rightarrow> rat" where
  "avg_completion_time ts = (if ts \<noteq> [] then of_int (sum_list ts) / of_int (int (length ts)) else 7)"

text \<open>The \<^verbatim>\<open>try\<close> block of \<^verbatim>\<open>calculate_predictive_delay\<close>: \<open>Inl\<close> is an exception raised in it.\<close>

definition estimate_body :: "env \<Rightarrow> module \<Rightarrow> idval \<Rightarrow> project list \<Rightarrow> error + delay_estimate" where
  "estimate_body e m user_id ps =
     (case dueDate m of
        None \<Rightarrow> Inr no_due_date_result
      | Some due_date \<Rightarrow>
          if \<not> dval_truthy due_date then Inr no_due_date_result
          else
            let completed_at =
                  (case completedAt m of None \<Rightarrow> DDatetime (utcnow e AtEstimate) | Some c \<Rightarrow> c)
            in
            (case due_date_obj e due_date of
               Inl err \<Rightarrow> Inl err
             | Inr due \<Rightarrow>
                (case minus_due_days completed_at due of
                   Inl err \<Rightarrow> Inl err
                 | Inr delay_days \<Rightarrow>
                    (case aggregate_user_modules e user_id ps of
                       Inl err \<Rightarrow> Inl err
                     | Inr user_modules \<Rightarrow>
                        (case completion_times user_modules of
                           Inl err \<Rightarrow> Inl err
                         | Inr ts \<Rightarrow>
                             Inr \<lparr>predictedDelay = delay_days,
                                  delayReason = delay_reason delay_days,
                                  confidence = confidence_of (length ts),
                                  avgCompletionTime = Some (round1 e (avg_completion_time ts)),
                                  historicalDataPoints = length ts\<rparr>)))))"

text \<open>\<^verbatim>\<open>calculate_predictive_delay\<close>: the \<^verbatim>\<open>except Exception\<close> clause answers every exception.\<close>

definition calculate_predictive_delay :: "env \<Rightarrow> module \<Rightarrow> idval \<Rightarrow> project list \<Rightarrow> delay_estimate" where
  "calculate_predictive_delay e m user_id ps =
     (case estimate_body e m user_id ps of
        Inl err \<Rightarrow> calculation_error_result
      | Inr r \<Rightarrow> r)"

section \<open>Processing a push event\<close>

text \<open>
  The webhook payload, as far as the engine reads it. \<open>pusher\<close> and \<open>repository\<close> are
  dicts, given by their \<^verbatim>\<open>name\<close> entry; \<open>commits\<close> is the list of commit ids;
  \<open>more_keys\<close> names the other keys of the payload.
\<close>

record payload =
  pusher :: "string option option"
  repository :: "string option option"
  ref :: "string option"
  commits :: "string list option"
  more_keys :: "string list"

text \<open>\<^verbatim>\<open>payload.get(k, {}).get('name')\<close>\<close>

fun get_name :: "string option option \<Rightarrow> string option" where
  "get_name None = None"
| "get_name (Some n) = n"

text \<open>\<^verbatim>\<open>len(payload.get('commits', []))\<close>\<close>

fun commit_count :: "string list option \<Rightarrow> nat" where
  "commit_count None = 0"
| "commit_count (Some cs) = length cs"

text \<open>\<^verbatim>\<open>ref.split('/')[-1] if ref else None\<close>\<close>

definition branch_of :: "string option \<Rightarrow> string option" where
  "branch_of r =
     (case r of
        None \<Rightarrow> None
      | Some s \<Rightarrow> if s = [] then None else Some (rev (takeWhile (\<lambda>c. c \<noteq> CHR ''/'') (rev s))))"

text \<open>
  The dict that \<^verbatim>\<open>validate_github_push\<close> returns; the entries of the delay estimate,
  merged into it by \<^verbatim>\<open>result.update(delay_info)\<close>, are kept together in \<open>delay\<close>.
\<close>

record completion =
  c_oid :: string
  c_id :: "string option"
  c_title :: "string option"
  c_description :: "string option"
  c_status :: string
  c_assignedToUserId :: string
  assignedToName :: string
  userRole :: string
  projectId :: string
  projectName :: "string option"
  c_teamId :: "string option"
  c_completedAt :: int
  completedBy :: string
  completedByUsername :: string
  c_repository :: string
  branch :: "string option"
  c_commits :: nat
  c_validationRule :: "vrule option"
  delay :: delay_estimate

text \<open>\<^verbatim>\<open>user.get('name', user.get('username', 'Unknown'))\<close> and \<^verbatim>\<open>user.get('role', 'user')\<close>\<close>

definition user_name_of :: "user \<Rightarrow> string" where
  "user_name_of u =
     (case u_name u of
        Some n \<Rightarrow> n
      | None \<Rightarrow> (case username u of Some n \<Rightarrow> n | None \<Rightarrow> ''Unknown''))"

definition user_role_of :: "user \<Rightarrow> string" where
  "user_role_of u = (case role u of Some r \<Rightarrow> r | None \<Rightarrow> ''user'')"

text \<open>
  \<^verbatim>\<open>str(fresh_project.get('teamId')) if fresh_project.get('teamId') else None\<close>: an
  ObjectId is truthy, a string only when it is not empty.
\<close>

fun team_id_text :: "idval option \<Rightarrow> string option" where
  "team_id_text None = None"
| "team_id_text (Some (ObjectId h)) = Some h"
| "team_id_text (Some (IdStr s)) = (if s = [] then None else Some s)"

definition assemble_result ::
  "env \<Rightarrow> payload \<Rightarrow> string \<Rightarrow> string \<Rightarrow> user \<Rightarrow> project \<Rightarrow> project \<Rightarrow> module \<Rightarrow> delay_estimate \<Rightarrow> completion" where
  "assemble_result e pl pusher_username repo_name u p fresh_project m delay_info =
     \<lparr>c_oid = (case m_oid m of None \<Rightarrow> [] | Some i \<Rightarrow> py_str_id i),
      c_id = m_id m,
      c_title = title m,
      c_description = description m,
      c_status = ''completed'',
      c_assignedToUserId = py_str_id_opt (assignedToUserId m),
      assignedToName = user_name_of u,
      userRole = user_role_of u,
      projectId = py_str_id (p_id p),
      projectName = p_name p,
      c_teamId = team_id_text (teamId fresh_project),
      c_completedAt = utcnow e AtResult,
      completedBy = py_str_id (u_id u),
      completedByUsername = pusher_username,
      c_repository = repo_name,
      branch = branch_of (ref pl),
      c_commits = commit_count (commits pl),
      c_validationRule = validationRule m,
      delay = delay_info\<rparr>"

text \<open>
  The \<^verbatim>\<open>try\<close> block of \<^verbatim>\<open>validate_github_push\<close>, with the store passed in and
  returned: \<open>Inl\<close> is an exception raised in it, \<open>Inr None\<close> one of its
  \<^verbatim>\<open>return None\<close> statements.
\<close>

definition validate_body :: "env \<Rightarrow> store \<Rightarrow> payload \<Rightarrow> (error + completion option) \<times> store" where
  "validate_body e s pl =
     (case get_name (pusher pl) of
        None \<Rightarrow> (Inr None, s)
      | Some pusher_username \<Rightarrow>
     if pusher_username = [] then (Inr None, s) else
     (case get_name (repository pl) of
        None \<Rightarrow> (Inr None, s)
      | Some repo_name \<Rightarrow>
     if repo_name = [] then (Inr None, s) else
     (case get_user_by_github_username e (users s) pusher_username of
        Inl err \<Rightarrow> (Inl err, s)
      | Inr None \<Rightarrow> (Inr None, s)
      | Inr (Some u) \<Rightarrow>
     (case find_module_in_projects e (projects s) (u_id u) repo_name ''in-progress'' of
        Inl err \<Rightarrow> (Inl err, s)
      | Inr None \<Rightarrow> (Inr None, s)
      | Inr (Some (p, module_index)) \<Rightarrow>
     (case modules_index p module_index of
        Inl err \<Rightarrow> (Inl err, s)
      | Inr None \<Rightarrow> (Inl AttributeError, s)
      | Inr (Some m) \<Rightarrow>
     (case update_module_status e (projects s) (p_id p) module_index ''completed'' of
        (Inl err, ps') \<Rightarrow> (Inl err, s\<lparr>projects := ps'\<rparr>)
      | (Inr None, ps') \<Rightarrow> (Inr None, s\<lparr>projects := ps'\<rparr>)
      | (Inr (Some updated_module), ps') \<Rightarrow>
          if fails e FindFresh then (Inl StoreError, s\<lparr>projects := ps'\<rparr>)
          else
            (case find_one ps' (p_id p) of
               None \<Rightarrow> (Inl AttributeError, s\<lparr>projects := ps'\<rparr>)
             | Some fresh_project \<Rightarrow>
                 (Inr (Some (assemble_result e pl pusher_username repo_name u p fresh_project m
                          (calculate_predictive_delay e updated_module (u_id u) ps'))),
                  s\<lparr>projects := ps'\<rparr>))))))))"

text \<open>\<^verbatim>\<open>validate_github_push\<close>: the \<^verbatim>\<open>except Exception\<close> clause returns \<open>None\<close>.\<close>

definition validate_github_push :: "env \<Rightarrow> store \<Rightarrow> payload \<Rightarrow> completion option \<times> store" where
  "validate_github_push e s pl =
     (case validate_body e s pl of
        (Inl err, s') \<Rightarrow> (None, s')
      | (Inr r, s') \<Rightarrow> (r, s'))"

section \<open>The webhook endpoint\<close>

text \<open>
  The three \<^verbatim>\<open>return jsonify(...)\<close> statements of \<^verbatim>\<open>github_webhook\<close>: status 400 for
  a missing payload, and two answers with status 200 and \<^verbatim>\<open>'status': 'success'\<close>, one
  carrying the completed module, one the summary of the payload.
\<close>

datatype http_response =
    NoPayload400
  | Completed200 completion
  | NoTaskMatched200 "string option" "string option" nat

text \<open>The two Socket.IO events, each built from the result alone.\<close>

datatype event = TaskUpdated completion | ModuleUpdated completion

text \<open>\<^verbatim>\<open>not payload\<close>: the body is missing or an empty dict.\<close>

definition payload_truthy :: "payload \<Rightarrow> bool" where
  "payload_truthy pl =
     (pusher pl \<noteq> None \<or> repository pl \<noteq> None \<or> ref pl \<noteq> None \<or> commits pl \<noteq> None
      \<or> more_keys pl \<noteq> [])"

definition github_webhook :: "env \<Rightarrow> store \<Rightarrow> payload option \<Rightarrow> http_response \<times> store \<times> event list" where
  "github_webhook e s request_json =
     (case request_json of
        None \<Rightarrow> (NoPayload400, s, [])
      | Some pl \<Rightarrow>
          if \<not> payload_truthy pl then (NoPayload400, s, [])
          else
            (case validate_github_push e s pl of
               (Some updated_module, s') \<Rightarrow>
                 (Completed200 updated_module, s', [TaskUpdated updated_module, ModuleUpdated updated_module])
             | (None, s') \<Rightarrow>
                 (NoTaskMatched200 (get_name (pusher pl)) (get_name (repository pl))
                    (commit_count (commits pl)), s', [])))"

section \<open>Eligible modules\<close>


section \<open>Example data\<close>

definition alice :: user where
  "alice = \<lparr>u_id = ObjectId ''u1'', u_name = Some ''Alice'', username = Some ''alice'',
     role = Some ''user'', githubUsername = Some ''alice''\<rparr>"

text \<open>The first day of the examples, 2025-10-20 00:00:00, in microseconds.\<close>

definition due0 :: int where
  "due0 = 20381 * day_us"

definition plain_module :: module where
  "plain_module = \<lparr>m_oid = Some (ObjectId ''a0''), m_id = Some ''A0'', title = Some ''Legacy task'',
     description = None, assignedToUserId = Some (ObjectId ''u1''), status = Some ''in-progress'',
     validationRule = None, dueDate = None, createdAt = Some (DDatetime (due0 - 10 * day_us)),
     completedAt = None\<rparr>"

definition rule_module :: module where
  "rule_module = \<lparr>m_oid = Some (ObjectId ''a1''), m_id = Some ''A1'', title = Some ''Tracker task'',
     description = None, assignedToUserId = Some (ObjectId ''u1''), status = Some ''in-progress'',
     validationRule = Some \<lparr>githubRepo = Some ''Tracker'', other_keys = []\<rparr>,
     dueDate = Some (DDatetime due0), createdAt = Some (DDatetime (due0 - 10 * day_us)),
     completedAt = None\<rparr>"

definition other_repo_module :: module where
  "other_repo_module = rule_module\<lparr>validationRule := Some \<lparr>githubRepo = Some ''Website'', other_keys = []\<rparr>\<rparr>"

definition empty_rule_module :: module where
  "empty_rule_module = rule_module\<lparr>validationRule := Some \<lparr>githubRepo = None, other_keys = []\<rparr>\<rparr>"

definition done_module :: module where
  "done_module = rule_module\<lparr>status := Some ''completed'', completedAt := Some (DDatetime due0)\<rparr>"

definition late_module :: module where
  "late_module = rule_module\<lparr>status := Some ''completed'',
     completedAt := Some (DDatetime (due0 + 2 * day_us))\<rparr>"


definition garbled_due_module :: module where
  "garbled_due_module = late_module\<lparr>dueDate := Some (DStr ''next week'')\<rparr>"

definition pending_module :: module where
  "pending_module = rule_module\<lparr>status := Some ''pending''\<rparr>"

definition project_of :: "melem list \<Rightarrow> project" where
  "project_of ms = \<lparr>p_id = ObjectId ''p1'', p_name = Some ''Demo'', teamId = Some (ObjectId ''t1''),
     modules = Arr ms\<rparr>"

definition store_of :: "melem list \<Rightarrow> store" where
  "store_of ms = \<lparr>users = [alice], projects = [project_of ms]\<rparr>"

definition push_event :: payload where
  "push_event = \<lparr>pusher = Some (Some ''alice''), repository = Some (Some ''tracker''),
     ref = Some ''refs/heads/main'', commits = Some [''abc123''], more_keys = []\<rparr>"

text \<open>
  An environment in which no store call fails and the clock stands two days after
  \<open>due0\<close>; \<open>fromisoformat\<close> knows one date without offset and one with.
\<close>

definition env_ok :: env where
  "env_ok = \<lparr>fails = (\<lambda>op. False), utcnow = (\<lambda>site. due0 + 2 * day_us),
     fromisoformat = (\<lambda>s. if s = ''2025-10-20'' then Some (Naive due0)
                           else if s = ''2025-10-20T00:00:00+00:00'' then Some (Aware due0)
                           else None),
     round1 = (\<lambda>x. x)\<rparr>"

text \<open>The same environment with one failing store call.\<close>

definition env_failing :: "store_op \<Rightarrow> env" where
  "env_failing op = env_ok\<lparr>fails := (\<lambda>op'. op' = op)\<rparr>"

section \<open>Properties of the matcher\<close>

lemma scan_modules_skipped:
  "list_all (skipped u r st) ms \<Longrightarrow>
   scan_modules u r st p idx (ms @ rest) = scan_modules u r st p (idx + length ms) rest"
proof (induction ms arbitrary: idx)
  case Nil
  then show ?case by simp
next
  case (Cons el ms)
  then obtain m where el: "el = Doc m" and none: "check_module u r st m = None"
    by (cases el) (auto simp: skipped_def)
  from Cons have "scan_modules u r st p (Suc idx) (ms @ rest)
      = scan_modules u r st p (Suc idx + length ms) rest"
    by simp
  with el none show ?case by simp
qed

lemma scan_modules_all_skipped:
  "list_all (skipped u r st) ms \<Longrightarrow> scan_modules u r st p idx ms = Inr None"
  using scan_modules_skipped [of u r st ms p idx "[]"] by simp

lemma scan_projects_passed_over:
  "list_all (passed_over u r st) ps1 \<Longrightarrow>
   scan_projects u r st (ps1 @ ps2) = scan_projects u r st ps2"
proof (induction ps1)
  case Nil
  then show ?case by simp
next
  case (Cons p ps1)
  then show ?case
    by (cases "modules p") (simp_all add: passed_over_def scan_modules_all_skipped)
qed

text \<open>
  First hit wins: the scan returns the first module document on which the loop body
  returns, whichever of the two branches it is.
\<close>

lemma scan_projects_first_hit:
  assumes "list_all (passed_over u r st) ps1"
    and "modules p = Arr (ms1 @ Doc m # ms2)"
    and "list_all (skipped u r st) ms1"
    and "check_module u r st m = Some k"
  shows "scan_projects u r st (ps1 @ p # ps2) = Inr (Some (p, length ms1))"
proof -
  have "scan_modules u r st p 0 (ms1 @ Doc m # ms2) = Inr (Some (p, length ms1))"
    using assms(3,4) by (simp add: scan_modules_skipped)
  then have "scan_projects u r st (p # ps2) = Inr (Some (p, length ms1))"
    using assms(2) by simp
  then show ?thesis
    using assms(1) by (simp add: scan_projects_passed_over)
qed



section \<open>Claims about the matcher\<close>






text \<open>
  Claim C10. An in-progress module of the user whose validation rule is present but has
  no truthy \<open>githubRepo\<close> (the rule is an empty dict, or the key is missing, null or the
  empty string) is treated as the same module without a rule: the loop body takes the
  fallback branch on both, whatever the repository of the event, and the matcher returns
  the module as soon as the scan reaches it.
\<close>

theorem rule_without_repo_is_fallback:
  assumes "validationRule m = Some vr"
    and "\<not> str_truthy (githubRepo vr)"
    and "py_str_id_opt (assignedToUserId m) = py_str_id user_id"
    and "status m = Some st"
    and "\<not> fails e FindProjects"
    and "list_all (passed_over user_id repo_name st) ps1"
    and "modules p = Arr (ms1 @ Doc m # ms2)"
    and "list_all (skipped user_id repo_name st) ms1"
  shows "check_module user_id repo_name st m = Some Fallback
    \<and> check_module user_id repo_name st (m\<lparr>validationRule := None\<rparr>) = Some Fallback
    \<and> find_module_in_projects e (ps1 @ p # ps2) user_id repo_name st = Inr (Some (p, length ms1))"
proof -
  have fb: "check_module user_id repo_name st m = Some Fallback"
    using assms(1-4) by (cases "githubRepo vr") (simp_all add: check_module_def)
  have "check_module user_id repo_name st (m\<lparr>validationRule := None\<rparr>) = Some Fallback"
    using assms(3,4) by (simp add: check_module_def)
  moreover have "scan_projects user_id repo_name st (ps1 @ p # ps2) = Inr (Some (p, length ms1))"
    using assms(6-8) fb by (rule scan_projects_first_hit)
  ultimately show ?thesis
    using fb assms(5) by (simp add: find_module_in_projects_def)
qed

text \<open>
  A module whose rule is the empty dict is returned for a push to \<open>tracker\<close>, after a
  module with another repository has been passed over.
\<close>

theorem rule_without_repo_is_fallback_witness:
  "validationRule empty_rule_module = Some \<lparr>githubRepo = None, other_keys = []\<rparr>
   \<and> \<not> str_truthy (githubRepo \<lparr>githubRepo = None, other_keys = []\<rparr>)
   \<and> py_str_id_opt (assignedToUserId empty_rule_module) = py_str_id (ObjectId ''u1'')
   \<and> status empty_rule_module = Some ''in-progress''
   \<and> \<not> fails env_ok FindProjects
   \<and> list_all (passed_over (ObjectId ''u1'') ''tracker'' ''in-progress'') []
   \<and> modules (project_of [Doc other_repo_module, Doc empty_rule_module])
       = Arr ([Doc other_repo_module] @ Doc empty_rule_module # [])
   \<and> list_all (skipped (ObjectId ''u1'') ''tracker'' ''in-progress'') [Doc other_repo_module]
   \<and> check_module (ObjectId ''u1'') ''tracker'' ''in-progress'' empty_rule_module = Some Fallback
   \<and> check_module (ObjectId ''u1'') ''tracker'' ''in-progress''
        (empty_rule_module\<lparr>validationRule := None\<rparr>) = Some Fallback
   \<and> find_module_in_projects env_ok
        ([] @ project_of [Doc other_repo_module, Doc empty_rule_module] # [])
        (ObjectId ''u1'') ''tracker'' ''in-progress''
      = Inr (Some (project_of [Doc other_repo_module, Doc empty_rule_module],
                   length [Doc other_repo_module]))"
proof -
  have h1: "validationRule empty_rule_module = Some \<lparr>githubRepo = None, other_keys = []\<rparr>"
    by (simp add: empty_rule_module_def)
  have h2: "\<not> str_truthy (githubRepo \<lparr>githubRepo = None, other_keys = []\<rparr>)" by simp
  have h3: "py_str_id_opt (assignedToUserId empty_rule_module) = py_str_id (ObjectId ''u1'')"
    by (simp add: empty_rule_module_def rule_module_def)
  have h4: "status empty_rule_module = Some ''in-progress''"
    by (simp add: empty_rule_module_def rule_module_def)
  have h5: "\<not> fails env_ok FindProjects" by (simp add: env_ok_def)
  have h6: "list_all (passed_over (ObjectId ''u1'') ''tracker'' ''in-progress'') []" by simp
  have h7: "modules (project_of [Doc other_repo_module, Doc empty_rule_module])
       = Arr ([Doc other_repo_module] @ Doc empty_rule_module # [])"
    by (simp add: project_of_def)
  have h8: "list_all (skipped (ObjectId ''u1'') ''tracker'' ''in-progress'') [Doc other_repo_module]"
    by code_simp
  from rule_without_repo_is_fallback [OF h1 h2 h3 h4 h5 h6 h7 h8, of "[]"] h1 h2 h3 h4 h5 h6 h7 h8
  show ?thesis by blast
qed

section \<open>Properties of the status update\<close>

lemma update_one_append:
  assumes "list_all (\<lambda>q. p_id q \<noteq> pid) ps1" and "p_id p = pid"
  shows "update_one (ps1 @ p # ps2) pid i ns t =
     (case apply_set (modules p) i ns t of
        Inl err \<Rightarrow> Inl err
      | Inr mf \<Rightarrow> Inr (ps1 @ p\<lparr>modules := mf\<rparr> # ps2, if mf = modules p then 0 else 1))"
  using assms by (induction ps1) (auto split: sum.splits)

lemma find_one_append:
  assumes "list_all (\<lambda>q. p_id q \<noteq> pid) ps1" and "p_id p = pid"
  shows "find_one (ps1 @ p # ps2) pid = Some p"
  using assms by (induction ps1) (auto simp: find_one_def)

lemma apply_set_doc:
  "apply_set (Arr (ms1 @ Doc m # ms2)) (length ms1) ns t
     = Inr (Arr (ms1 @ Doc (set_completed ns t m) # ms2))"
  by (simp add: apply_set_def)

lemma update_module_status_doc:
  assumes "\<not> fails e UpdateOne" and "\<not> fails e FindUpdated"
    and "list_all (\<lambda>q. p_id q \<noteq> project_id) ps1" and "p_id p = project_id"
    and "modules p = Arr (ms1 @ Doc m # ms2)"
    and "m' = set_completed new_status (bson_datetime (utcnow e AtUpdate)) m"
  shows "update_module_status e (ps1 @ p # ps2) project_id (length ms1) new_status =
     (if m' = m then (Inr None, ps1 @ p # ps2)
      else (Inr (Some m'), ps1 @ p\<lparr>modules := Arr (ms1 @ Doc m' # ms2)\<rparr> # ps2))"
proof (cases "m' = m")
  case True
  then have "p\<lparr>modules := Arr (ms1 @ Doc m' # ms2)\<rparr> = p" using assms(5) by simp
  with True assms show ?thesis
    by (simp add: update_module_status_def update_one_append apply_set_doc)
next
  case False
  have idx: "modules_index (p\<lparr>modules := Arr (ms1 @ Doc m' # ms2)\<rparr>) (length ms1) = Inr (Some m')"
    by (simp add: modules_index_def)
  have fo: "find_one (ps1 @ p\<lparr>modules := Arr (ms1 @ Doc m' # ms2)\<rparr> # ps2) project_id
      = Some (p\<lparr>modules := Arr (ms1 @ Doc m' # ms2)\<rparr>)"
    using assms(3,4) by (simp add: find_one_append)
  from False assms idx fo show ?thesis
    by (simp add: update_module_status_def update_one_append apply_set_doc)
qed

lemma update_one_no_project:
  "list_all (\<lambda>q. p_id q \<noteq> pid) ps \<Longrightarrow> update_one ps pid i ns t = Inr (ps, 0)"
  by (induction ps) auto

lemma update_module_status_no_project:
  assumes "\<not> fails e UpdateOne" and "list_all (\<lambda>q. p_id q \<noteq> project_id) ps"
  shows "update_module_status e ps project_id i new_status = (Inr None, ps)"
  using assms by (simp add: update_module_status_def update_one_no_project)

lemma update_module_status_success_no_fault:
  "update_module_status e ps pid i ns = (Inr (Some um), ps') \<Longrightarrow>
   \<not> fails e UpdateOne \<and> \<not> fails e FindUpdated"
  by (auto simp: update_module_status_def split: if_splits sum.splits prod.splits option.splits)

text \<open>
  Claim C2 says that the update is conditional on the module still being in progress.
  The filter of \<^verbatim>\<open>update_one\<close> is the project identifier alone: a module that is
  already completed gets a new \<open>completedAt\<close>, and the updated module is returned.
\<close>

theorem completed_module_is_overwritten:
  "status done_module = Some ''completed''
   \<and> completedAt done_module = Some (DDatetime due0)
   \<and> update_module_status env_ok [project_of [Doc done_module]] (ObjectId ''p1'') 0 ''completed''
      = (Inr (Some (done_module\<lparr>completedAt := Some (DDatetime (due0 + 2 * day_us))\<rparr>)),
         [project_of [Doc (done_module\<lparr>completedAt := Some (DDatetime (due0 + 2 * day_us))\<rparr>)]])
   \<and> due0 + 2 * day_us \<noteq> due0"
  by code_simp

text \<open>
  Claim C2 as amended: the update does not look at the state of the module. When the
  first project with the given identifier holds a module document at the given index
  and neither store call fails, the status and \<open>completedAt\<close> of that module are set,
  whatever its status was, and the updated module is returned; no module is returned
  only when the write leaves the document exactly as it was.
\<close>

theorem update_is_unconditional:
  assumes "\<not> fails e UpdateOne" and "\<not> fails e FindUpdated"
    and "list_all (\<lambda>q. p_id q \<noteq> project_id) ps1" and "p_id p = project_id"
    and "modules p = Arr (ms1 @ Doc m # ms2)"
    and "m' = m\<lparr>status := Some new_status,
                 completedAt := Some (DDatetime (bson_datetime (utcnow e AtUpdate)))\<rparr>"
  shows "update_module_status e (ps1 @ p # ps2) project_id (length ms1) new_status =
     (if m' = m then (Inr None, ps1 @ p # ps2)
      else (Inr (Some m'), ps1 @ p\<lparr>modules := Arr (ms1 @ Doc m' # ms2)\<rparr> # ps2))"
  using assms(1-5)
  by (rule update_module_status_doc) (simp add: assms(6) set_completed_def)

text \<open>
  A module with status \<open>pending\<close>, which the matcher would not select, is completed by
  the update all the same.
\<close>

theorem update_is_unconditional_witness:
  "\<not> fails env_ok UpdateOne \<and> \<not> fails env_ok FindUpdated
   \<and> list_all (\<lambda>q. p_id q \<noteq> ObjectId ''p1'') []
   \<and> p_id (project_of [Doc pending_module]) = ObjectId ''p1''
   \<and> modules (project_of [Doc pending_module]) = Arr ([] @ Doc pending_module # [])
   \<and> status pending_module = Some ''pending''
   \<and> update_module_status env_ok ([] @ project_of [Doc pending_module] # []) (ObjectId ''p1'')
        (length ([] :: melem list)) ''completed''
      = (Inr (Some (pending_module\<lparr>status := Some ''completed'',
                      completedAt := Some (DDatetime (due0 + 2 * day_us))\<rparr>)),
         [project_of [Doc (pending_module\<lparr>status := Some ''completed'',
                      completedAt := Some (DDatetime (due0 + 2 * day_us))\<rparr>)]])"
proof -
  let ?m' = "pending_module\<lparr>status := Some ''completed'',
      completedAt := Some (DDatetime (bson_datetime (utcnow env_ok AtUpdate)))\<rparr>"
  have h1: "\<not> fails env_ok UpdateOne" by (simp add: env_ok_def)
  have h2: "\<not> fails env_ok FindUpdated" by (simp add: env_ok_def)
  have h3: "list_all (\<lambda>q. p_id q \<noteq> ObjectId ''p1'') []" by simp
  have h4: "p_id (project_of [Doc pending_module]) = ObjectId ''p1''"
    by (simp add: project_of_def)
  have h5: "modules (project_of [Doc pending_module]) = Arr ([] @ Doc pending_module # [])"
    by (simp add: project_of_def)
  have h6: "?m' = ?m'" by (rule refl)
  have h7: "status pending_module = Some ''pending''"
    by (simp add: pending_module_def rule_module_def)
  have t: "bson_datetime (utcnow env_ok AtUpdate) = due0 + 2 * day_us"
    by (simp add: env_ok_def bson_datetime_def due0_def day_us_def)
  have ne: "?m' \<noteq> pending_module"
    by (simp add: pending_module_def rule_module_def)
  have p': "(project_of [Doc pending_module])\<lparr>modules := Arr ([] @ Doc ?m' # [])\<rparr>
      = project_of [Doc ?m']"
    by (simp add: project_of_def)
  from update_is_unconditional [OF h1 h2 h3 h4 h5 h6, of "[]"] ne p' t h1 h2 h3 h4 h5 h7
  show ?thesis by simp
qed

section \<open>Properties of the processing of an event\<close>

lemma validate_body_success:
  assumes "validate_body e s pl = (Inr (Some c), s')"
  shows "\<exists>un rn u p i m um ps'.
      get_name (pusher pl) = Some un \<and> un \<noteq> [] \<and>
      get_name (repository pl) = Some rn \<and> rn \<noteq> [] \<and>
      get_user_by_github_username e (users s) un = Inr (Some u) \<and>
      find_module_in_projects e (projects s) (u_id u) rn ''in-progress'' = Inr (Some (p, i)) \<and>
      modules_index p i = Inr (Some m) \<and>
      update_module_status e (projects s) (p_id p) i ''completed'' = (Inr (Some um), ps') \<and>
      \<not> fails e FindFresh \<and>
      s' = s\<lparr>projects := ps'\<rparr>"
  using assms unfolding validate_body_def
  by (auto split: option.splits sum.splits prod.splits if_splits)


text \<open>
  Claim C3 says that a failing store call surfaces as a failure of its own. The
  \<^verbatim>\<open>except Exception\<close> clause of \<^verbatim>\<open>validate_github_push\<close> returns \<open>None\<close>, and the
  endpoint answers as it does for a pusher whom no user matches: with the lookup of the
  user failing, the response is the one given when the store has no such user, although
  with a working store the same event completes a module.
\<close>

theorem store_failure_looks_like_no_match:
  "fst (validate_github_push (env_failing FindUser) (store_of [Doc rule_module]) push_event) = None
   \<and> fst (github_webhook (env_failing FindUser) (store_of [Doc rule_module]) (Some push_event))
      = NoTaskMatched200 (Some ''alice'') (Some ''tracker'') 1
   \<and> fst (github_webhook env_ok ((store_of [Doc rule_module])\<lparr>users := []\<rparr>) (Some push_event))
      = NoTaskMatched200 (Some ''alice'') (Some ''tracker'') 1
   \<and> fst (github_webhook env_ok (store_of [Doc rule_module]) (Some push_event))
      \<noteq> NoTaskMatched200 (Some ''alice'') (Some ''tracker'') 1"
  by code_simp

text \<open>
  Claim C3 as amended: when one of the store calls of \<^verbatim>\<open>validate_github_push\<close> itself
  fails (the lookup of the user, the scan of the projects, the update, or one of the two
  reads after it), the function returns \<open>None\<close> and the endpoint gives the answer of the
  no-match case, with status 200 and no event emitted. (A failure of the history query is
  absorbed by the estimator, see C9.)
\<close>

theorem store_failure_returns_no_match:
  assumes "fails e op" and "op \<noteq> Aggregate" and "payload_truthy pl"
  shows "fst (validate_github_push e s pl) = None
    \<and> github_webhook e s (Some pl) =
        (NoTaskMatched200 (get_name (pusher pl)) (get_name (repository pl))
           (commit_count (commits pl)),
         snd (validate_github_push e s pl), [])"
proof -
  have none: "fst (validate_github_push e s pl) = None"
  proof (rule ccontr)
    assume "fst (validate_github_push e s pl) \<noteq> None"
    then obtain c s' where "validate_body e s pl = (Inr (Some c), s')"
      by (auto simp: validate_github_push_def split: prod.splits sum.splits)
    from validate_body_success [OF this] obtain un rn u p i um ps' where
      "get_user_by_github_username e (users s) un = Inr (Some u)"
      "find_module_in_projects e (projects s) (u_id u) rn ''in-progress'' = Inr (Some (p, i))"
      "update_module_status e (projects s) (p_id p) i ''completed'' = (Inr (Some um), ps')"
      "\<not> fails e FindFresh"
      by blast
    then have "\<not> fails e FindUser" "\<not> fails e FindProjects" "\<not> fails e UpdateOne"
      "\<not> fails e FindUpdated" "\<not> fails e FindFresh"
      by (auto simp: get_user_by_github_username_def find_module_in_projects_def
          dest: update_module_status_success_no_fault split: if_splits)
    with assms(1,2) show False by (cases op) simp_all
  qed
  then show ?thesis
    using assms(3) by (cases "validate_github_push e s pl") (simp add: github_webhook_def)
qed

text \<open>The read of the fresh project fails after the module has been completed in the store.\<close>

theorem store_failure_returns_no_match_witness:
  "fails (env_failing FindFresh) FindFresh \<and> FindFresh \<noteq> Aggregate \<and> payload_truthy push_event
   \<and> fst (validate_github_push (env_failing FindFresh) (store_of [Doc rule_module]) push_event) = None
   \<and> github_webhook (env_failing FindFresh) (store_of [Doc rule_module]) (Some push_event) =
        (NoTaskMatched200 (get_name (pusher push_event)) (get_name (repository push_event))
           (commit_count (commits push_event)),
         snd (validate_github_push (env_failing FindFresh) (store_of [Doc rule_module]) push_event), [])"
proof -
  have h1: "fails (env_failing FindFresh) FindFresh" by (simp add: env_failing_def)
  have h2: "FindFresh \<noteq> Aggregate" by simp
  have h3: "payload_truthy push_event" by (simp add: payload_truthy_def push_event_def)
  from store_failure_returns_no_match [OF h1 h2 h3] h1 h2 h3
  show ?thesis by blast
qed

section \<open>Replaying an event\<close>











section \<open>Properties of the delay estimator\<close>



lemma minus_due_days_aware: "minus_due_days x (Aware d) = Inl TypeError"
  by (cases x) simp_all

lemma timedelta_days_naive_fails: "timedelta_days (Naive a) due = Inl err \<Longrightarrow> \<exists>d. due = Aware d"
  by (cases due) simp_all

lemma minus_due_days_fails:
  "minus_due_days x due = Inl err \<Longrightarrow> (\<exists>d. due = Aware d) \<or> x = DNull \<or> (\<exists>s. x = DStr s)"
  by (cases x) (auto dest: timedelta_days_naive_fails)

lemma estimate_body_failure_causes:
  assumes "estimate_body e m u ps = Inl err"
  shows "\<exists>dd. dueDate m = Some dd \<and> dval_truthy dd \<and>
     ((\<exists>err1. due_date_obj e dd = Inl err1)
       \<or> (\<exists>d. due_date_obj e dd = Inr (Aware d))
       \<or> completedAt m = Some DNull
       \<or> (\<exists>s. completedAt m = Some (DStr s))
       \<or> fails e Aggregate
       \<or> (\<exists>err2. completion_times (take 20 (filter (history_match u) (concat (map unwind ps)))) = Inl err2))"
  using assms
  by (auto simp: estimate_body_def aggregate_user_modules_def Let_def no_due_date_result_def
        split: sum.splits option.splits if_splits simp del: unwind.simps
        dest: minus_due_days_fails timedelta_days_naive_fails)



text \<open>
  Claim C7. A module without a due date (the key is absent, or its value is null or the
  empty string, which the test \<^verbatim>\<open>not due_date\<close> treats alike) gets exactly the record
  below, for every environment and every store: the history is not consulted.
\<close>

theorem no_due_date_estimate:
  assumes "dueDate m = None \<or> dueDate m = Some DNull \<or> dueDate m = Some (DStr [])"
  shows "calculate_predictive_delay e m u ps =
     \<lparr>predictedDelay = 0, delayReason = ''No due date set'', confidence = ''n/a'',
      avgCompletionTime = None, historicalDataPoints = 0\<rparr>"
  using assms
  by (auto simp: calculate_predictive_delay_def estimate_body_def no_due_date_result_def)

text \<open>The module without a due date, with the history query set to fail.\<close>

theorem no_due_date_estimate_witness:
  "(dueDate plain_module = None \<or> dueDate plain_module = Some DNull
      \<or> dueDate plain_module = Some (DStr []))
   \<and> fails (env_failing Aggregate) Aggregate
   \<and> calculate_predictive_delay (env_failing Aggregate) plain_module (ObjectId ''u1'')
        [project_of [Doc late_module]] =
      \<lparr>predictedDelay = 0, delayReason = ''No due date set'', confidence = ''n/a'',
       avgCompletionTime = None, historicalDataPoints = 0\<rparr>"
proof -
  have h: "dueDate plain_module = None \<or> dueDate plain_module = Some DNull
      \<or> dueDate plain_module = Some (DStr [])"
    by (simp add: plain_module_def)
  have f: "fails (env_failing Aggregate) Aggregate" by (simp add: env_failing_def)
  from no_due_date_estimate [OF h] h f show ?thesis by blast
qed



text \<open>
  Claim C9. \<open>calculate_predictive_delay\<close> returns an estimate on every input: its
  \<^verbatim>\<open>except Exception\<close> clause answers every exception of the \<^verbatim>\<open>try\<close> block. With a due
  date present, each cause of an exception (a due date that does not parse, a due date
  with an offset or a \<open>completedAt\<close> that is no datetime, which cannot be subtracted, a
  failing history query, a history timestamp that is no datetime) makes the block raise,
  and the result is exactly the record below. By \<open>estimate_body_failure_causes\<close> these
  are all the causes there are.
\<close>

theorem estimator_absorbs_failures:
  assumes "dueDate m = Some dd" and "dval_truthy dd"
    and "due_date_obj e dd = Inl err1
       \<or> due_date_obj e dd = Inr (Aware d)
       \<or> completedAt m = Some DNull
       \<or> completedAt m = Some (DStr s)
       \<or> fails e Aggregate
       \<or> completion_times (take 20 (filter (history_match u) (concat (map unwind ps)))) = Inl err2"
  shows "(\<exists>err. estimate_body e m u ps = Inl err)
    \<and> calculate_predictive_delay e m u ps =
       \<lparr>predictedDelay = 0, delayReason = ''Calculation error'', confidence = ''low'',
        avgCompletionTime = None, historicalDataPoints = 0\<rparr>"
proof -
  have "\<exists>err. estimate_body e m u ps = Inl err"
    using assms
    by (auto simp: estimate_body_def aggregate_user_modules_def Let_def minus_due_days_aware
        split: sum.splits option.splits simp del: unwind.simps)
  then show ?thesis
    by (auto simp: calculate_predictive_delay_def calculation_error_result_def)
qed

text \<open>A due date that does not parse, and a failing history query.\<close>

theorem estimator_absorbs_failures_witness:
  "dueDate garbled_due_module = Some (DStr ''next week'') \<and> dval_truthy (DStr ''next week'')
   \<and> due_date_obj env_ok (DStr ''next week'') = Inl ValueError
   \<and> calculate_predictive_delay env_ok garbled_due_module (ObjectId ''u1'')
        [project_of [Doc late_module]] =
      \<lparr>predictedDelay = 0, delayReason = ''Calculation error'', confidence = ''low'',
       avgCompletionTime = None, historicalDataPoints = 0\<rparr>
   \<and> dueDate late_module = Some (DDatetime due0) \<and> dval_truthy (DDatetime due0)
   \<and> fails (env_failing Aggregate) Aggregate
   \<and> calculate_predictive_delay (env_failing Aggregate) late_module (ObjectId ''u1'')
        [project_of [Doc late_module]] =
      \<lparr>predictedDelay = 0, delayReason = ''Calculation error'', confidence = ''low'',
       avgCompletionTime = None, historicalDataPoints = 0\<rparr>"
proof -
  have a1: "dueDate garbled_due_module = Some (DStr ''next week'')"
    by (simp add: garbled_due_module_def)
  have a2: "dval_truthy (DStr ''next week'')" by simp
  have a3: "due_date_obj env_ok (DStr ''next week'') = Inl ValueError" by code_simp
  have b1: "dueDate late_module = Some (DDatetime due0)"
    by (simp add: late_module_def rule_module_def)
  have b2: "dval_truthy (DDatetime due0)" by simp
  have b3: "fails (env_failing Aggregate) Aggregate" by (simp add: env_failing_def)
  note malformed = estimator_absorbs_failures [OF a1 a2 disjI1, OF a3]
  note store_error = estimator_absorbs_failures [OF b1 b2 disjI2, OF disjI2, OF disjI2,
      OF disjI2, OF disjI1, OF b3]
  from malformed store_error a1 a2 a3 b1 b2 b3 show ?thesis by blast
qed

end
